theory Spec2Isabelle
  imports Main "HOL-Library.Word"
begin

unbundle bit_operations_syntax

section \<open>Machine types of the framework\<close>

type_synonym size_t = "64 word"
type_synonym uint16_t = "16 word"
type_synonym byte = "8 word"

section \<open>Common.hpp: hexadecimal formatting\<close>

text \<open>
  \<^verbatim>\<open>result << std::hex << std::setfill('0') << std::setw(width) << static_cast<std::size_t>(data)\<close>
  The stream prints an unsigned value in base 16 without a prefix and without leading
  zeros (a single 0 for the value zero), in upper case when \<^verbatim>\<open>uppercase\<close> is set, and
  then pads it on the left with the fill character up to the field width. A value
  with more digits than the width is printed in full.
\<close>

definition hex_digit :: "bool \<Rightarrow> nat \<Rightarrow> char" where
  "hex_digit upper d =
     (if upper then ''0123456789ABCDEF'' ! d else ''0123456789abcdef'' ! d)"

fun hex_digits :: "bool \<Rightarrow> nat \<Rightarrow> string" where
  "hex_digits upper n =
     (if n < 16 then [hex_digit upper n]
      else hex_digits upper (n div 16) @ [hex_digit upper (n mod 16)])"

declare hex_digits.simps [simp del]








section \<open>Common.hpp: GetRandomValue\<close>

text \<open>
  \<^verbatim>\<open>return dist(gen, param_t(begin + 1, end - 1));\<close>
  The two bounds are computed from values of \<^verbatim>\<open>Type\<close> and passed to a constructor that
  takes two values of \<^verbatim>\<open>Type\<close>. The flag \<open>is_signed\<close> selects the reading of the \<open>w\<close>-bit
  pattern, and \<^verbatim>\<open>int\<close> has 32 bits.
  \<^item> For an unsigned type (the default is \<^verbatim>\<open>uint32_t\<close>) the sum and the difference wrap
    around modulo \<open>2 ^ w\<close>.
  \<^item> For a signed type narrower than \<^verbatim>\<open>int\<close> (\<^verbatim>\<open>short\<close>) the operands are promoted to
    \<^verbatim>\<open>int\<close>, where \<open>begin + 1\<close> and \<open>end - 1\<close> cannot overflow, and the results are
    narrowed to \<^verbatim>\<open>Type\<close> again, which keeps the low \<open>w\<close> bits.
  \<^item> For a signed type at least as wide as \<^verbatim>\<open>int\<close> (\<^verbatim>\<open>int\<close>, \<^verbatim>\<open>long\<close>, \<^verbatim>\<open>long long\<close>) a
    result that is not representable is undefined behaviour, so there are no
    parameters at all.
\<close>

definition promoted :: "'a::len word \<Rightarrow> bool" where
  "promoted x = (LENGTH('a) < 32)"

definition value_of :: "bool \<Rightarrow> 'a::len word \<Rightarrow> int" where
  "value_of is_signed x = (if is_signed then sint x else uint x)"

definition numeric_min :: "bool \<Rightarrow> 'a::len word \<Rightarrow> int" where
  "numeric_min is_signed x = (if is_signed then - (2 ^ (LENGTH('a) - 1)) else 0)"

definition numeric_max :: "bool \<Rightarrow> 'a::len word \<Rightarrow> int" where
  "numeric_max is_signed x = (if is_signed then 2 ^ (LENGTH('a) - 1) - 1 else 2 ^ LENGTH('a) - 1)"

definition param_t :: "bool \<Rightarrow> 'a::len word \<Rightarrow> 'a word \<Rightarrow> (int \<times> int) option" where
  "param_t is_signed begin end =
     (if is_signed then
        (if promoted begin then Some (sint (begin + 1), sint (end - 1))
         else if sint begin + 1 \<le> numeric_max True begin \<and> numeric_min True end \<le> sint end - 1
         then Some (sint begin + 1, sint end - 1)
         else None)
      else Some (uint (begin + 1), uint (end - 1)))"

text \<open>
  \<^verbatim>\<open>std::uniform_int_distribution\<close> requires \<open>a \<le> b\<close> of its parameters and then produces
  some value of the closed interval \<open>[a, b]\<close>; with \<open>a > b\<close> the behaviour is undefined.
  The generator is seeded from \<^verbatim>\<open>std::random_device\<close>, so the model does not fix the value
  drawn: \<open>GetRandomValue_defined\<close> says that the call has a defined result and
  \<open>GetRandomValue_returns\<close> that a value is one of its possible results.
\<close>

definition GetRandomValue_defined :: "bool \<Rightarrow> 'a::len word \<Rightarrow> 'a word \<Rightarrow> bool" where
  "GetRandomValue_defined is_signed begin end =
     (case param_t is_signed begin end of
        None \<Rightarrow> False
      | Some (a, b) \<Rightarrow> a \<le> b)"

definition GetRandomValue_returns :: "bool \<Rightarrow> 'a::len word \<Rightarrow> 'a word \<Rightarrow> 'a word \<Rightarrow> bool" where
  "GetRandomValue_returns is_signed begin end v =
     (case param_t is_signed begin end of
        None \<Rightarrow> False
      | Some (a, b) \<Rightarrow> a \<le> b \<and> a \<le> value_of is_signed v \<and> value_of is_signed v \<le> b)"

section \<open>Common.hpp: the error code of the file functions\<close>

text \<open>\<^verbatim>\<open>std::numeric_limits<Type>::max()\<close> of an unsigned type: every bit set.\<close>

definition numeric_limits_max :: "'a::len word" where
  "numeric_limits_max = - 1"

definition ErrorState :: size_t where
  "ErrorState = numeric_limits_max"

section \<open>Common.hpp: class Data\<close>

text \<open>
  The class owns an array through \<^verbatim>\<open>std::unique_ptr<Type[]>\<close> and stores the size its
  constructor was given. The array is a list here; a \<^verbatim>\<open>Type*\<close> into it is either
  \<^verbatim>\<open>nullptr\<close> or the address of the element at an index.
\<close>

datatype pointer = nullptr | element size_t

record 'a Data =
  data :: "'a list"
  length_Data :: size_t

text \<open>
  The three accessors are \<^verbatim>\<open>const\<close> member functions. Each takes the object and gives
  back its result together with the object as it is after the call.
\<close>

definition Size :: "'a Data \<Rightarrow> size_t \<times> 'a Data" where
  "Size d = (length_Data d, d)"

definition Get :: "'a Data \<Rightarrow> 'a list \<times> 'a Data" where
  "Get d = (data d, d)"

definition GetAt :: "'a Data \<Rightarrow> size_t \<Rightarrow> pointer \<times> 'a Data" where
  "GetAt d index = (if index < length_Data d then element index else nullptr, d)"

text \<open>What a pointer returned by the accessors designates in the container.\<close>

definition deref :: "'a Data \<Rightarrow> pointer \<Rightarrow> 'a option" where
  "deref d p =
     (case p of
        nullptr \<Rightarrow> None
      | element i \<Rightarrow> if unat i < length (data d) then Some (data d ! unat i) else None)"

section \<open>Common.hpp: is_pod_type\<close>

text \<open>
  The trait is specialised to \<^verbatim>\<open>true\<close> under
  \<^verbatim>\<open>std::is_trivial<Type>::value && std::is_standard_layout<Type>::value\<close>. A C++ type
  enters the model through the three properties the standard builds these traits from:
  a trivial type is a trivially copyable type with a trivial default constructor.
\<close>

record cpp_type =
  is_trivially_copyable :: bool
  has_trivial_default_constructor :: bool
  is_standard_layout :: bool

definition is_trivial :: "cpp_type \<Rightarrow> bool" where
  "is_trivial T = (is_trivially_copyable T \<and> has_trivial_default_constructor T)"

definition is_pod_type :: "cpp_type \<Rightarrow> bool" where
  "is_pod_type T = (is_trivial T \<and> is_standard_layout T)"

text \<open>
  \<^verbatim>\<open>struct mixed_access { int a; private: int b; };\<close> has implicit special members only,
  so it is trivial, but its members differ in access control, so it is not
  standard-layout. \<^verbatim>\<open>struct plain { int a; int b; };\<close> has all three properties.
\<close>

definition mixed_access :: cpp_type where
  "mixed_access = \<lparr>is_trivially_copyable = True, has_trivial_default_constructor = True,
                    is_standard_layout = False\<rparr>"

definition plain :: cpp_type where
  "plain = \<lparr>is_trivially_copyable = True, has_trivial_default_constructor = True,
             is_standard_layout = True\<rparr>"

section \<open>GlobalInfo.hpp: GetCallback\<close>

text \<open>
  The registry is \<^verbatim>\<open>std::array<std::unique_ptr<std::unique_ptr<BaseCallbackFunctor>[]>, SIZE>\<close>:
  per module either no table (\<^verbatim>\<open>nullptr\<close>, \<open>None\<close>) or a table whose entries are
  either empty or a functor. \<^verbatim>\<open>FRAMEWORK_MODULE_TYPES_SIZE\<close> and \<^verbatim>\<open>GetModuleCallbacksSize\<close>
  are declared outside this header and are parameters, as is the \<^verbatim>\<open>dynamic_cast\<close> to the
  requested functor type, which gives \<^verbatim>\<open>nullptr\<close> for an object of another type.
  \<^verbatim>\<open>LOG_ERROR\<close> writes to the logger; the messages are returned as a list.
\<close>

record 'f GlobalInfo =
  callbacks :: "'f option list option list"

datatype log_message = IncorrectModuleType uint16_t | IncorrectCallbackType uint16_t

definition GetCallback ::
  "nat \<Rightarrow> (uint16_t \<Rightarrow> uint16_t) \<Rightarrow> ('f \<Rightarrow> 't option) \<Rightarrow> 'f GlobalInfo \<Rightarrow> uint16_t \<Rightarrow> uint16_t
     \<Rightarrow> 't option \<times> 'f GlobalInfo \<times> log_message list" where
  "GetCallback FRAMEWORK_MODULE_TYPES_SIZE GetModuleCallbacksSize dynamic_cast gi module callback =
     (if FRAMEWORK_MODULE_TYPES_SIZE \<le> unat module then
        (None, gi, [IncorrectModuleType module])
      else
        (case callbacks gi ! unat module of
           None \<Rightarrow> (None, gi, [])
         | Some table \<Rightarrow>
             if callback < GetModuleCallbacksSize module then
               (case table ! unat callback of
                  None \<Rightarrow> (None, gi, [])
                | Some functor \<Rightarrow> (dynamic_cast functor, gi, []))
             else (None, gi, [IncorrectCallbackType callback])))"

section \<open>test_binary_data_engine.cpp: the header and the byte pattern\<close>







section \<open>The binary data engine\<close>

text \<open>
  \<^verbatim>\<open>BinaryDataEngine.hpp\<close> and \<^verbatim>\<open>BinaryStructuredDataEngine.hpp\<close> are included by
  \<^verbatim>\<open>AnalyzerApi.hpp\<close> and used by the test program, but they are not among the source
  files. Every definition of this section is modelled from the specification and says
  which part of it.
\<close>

text \<open>
  Modelled from the spec: the endianness tag of section 3 as it is stored in the engine
  (the native tag is resolved to one of the two at construction).
  \<^verbatim>\<open>BinaryDataEngine.hpp\<close> is missing.
\<close>

datatype DATA_ENDIAN_TYPE = DATA_BIG_ENDIAN | DATA_LITTLE_ENDIAN

text \<open>
  Modelled from the spec: the bit mode tag of section 3. \<^verbatim>\<open>BinaryDataEngine.hpp\<close> is
  missing.
\<close>

datatype DATA_HANDLING_MODE = DATA_MODE_DEPENDENT | DATA_MODE_INDEPENDENT

text \<open>
  Modelled from the spec: the binary data engine of section 3 with its byte buffer
  (the bytes, the owning flag, the mutability flag), its endianness tag and its bit
  mode. \<^verbatim>\<open>BinaryDataEngine.hpp\<close> is missing.
\<close>

record BinaryDataEngine =
  buffer :: "byte list"
  owning :: bool
  writable :: bool
  dataEndianType :: DATA_ENDIAN_TYPE
  dataModeType :: DATA_HANDLING_MODE


text \<open>
  Modelled from the spec: \<open>set_endian\<close> of section 4.4, \<^verbatim>\<open>SetDataEndianType\<close> in the test
  program; section 3 makes it a relabelling that leaves the bytes alone.
  \<^verbatim>\<open>BinaryDataEngine.hpp\<close> is missing.
\<close>

definition SetDataEndianType :: "BinaryDataEngine \<Rightarrow> DATA_ENDIAN_TYPE \<Rightarrow> BinaryDataEngine" where
  "SetDataEndianType e endian = e\<lparr>dataEndianType := endian\<rparr>"

text \<open>
  Modelled from the spec: the bit length of section 4.3, eight times the byte length.
  \<^verbatim>\<open>BinaryDataEngine.hpp\<close> is missing.
\<close>

definition Length :: "BinaryDataEngine \<Rightarrow> nat" where
  "Length e = 8 * length (buffer e)"

text \<open>
  Modelled from the spec: the byte taken in endian order of section 4.2: the bytes are
  counted from the first under the big-endian tag and from the last under the
  little-endian tag. \<^verbatim>\<open>BinaryDataEngine.hpp\<close> is missing.
\<close>

definition endian_order :: "BinaryDataEngine \<Rightarrow> nat \<Rightarrow> nat" where
  "endian_order e j =
     (case dataEndianType e of
        DATA_BIG_ENDIAN \<Rightarrow> j
      | DATA_LITTLE_ENDIAN \<Rightarrow> length (buffer e) - 1 - j)"

text \<open>
  Modelled from the spec: \<open>test\<close> of section 4.3 with the policy of section 4.2. In
  dependent mode bit \<open>b\<close> is bit \<open>7 - b mod 8\<close> of byte \<open>b div 8\<close> taken in endian order;
  in independent mode it is bit \<open>b mod 8\<close> of byte \<open>b div 8\<close> in raw order; a read out of
  range is false. \<^verbatim>\<open>BinaryDataEngine.hpp\<close> is missing.
\<close>

definition Test :: "BinaryDataEngine \<Rightarrow> nat \<Rightarrow> bool" where
  "Test e b =
     (if b < Length e then
        (case dataModeType e of
           DATA_MODE_DEPENDENT \<Rightarrow> bit (buffer e ! endian_order e (b div 8)) (7 - b mod 8)
         | DATA_MODE_INDEPENDENT \<Rightarrow> bit (buffer e ! (b div 8)) (b mod 8))
      else False)"

text \<open>
  Modelled from the spec: \<open>count(lo, hi)\<close> of section 4.3, the population count over a
  half-open range of bits. \<^verbatim>\<open>BinaryDataEngine.hpp\<close> is missing.
\<close>

definition Count_range :: "BinaryDataEngine \<Rightarrow> nat \<Rightarrow> nat \<Rightarrow> nat" where
  "Count_range e lo hi = length (filter (Test e) [lo..<hi])"

text \<open>
  Modelled from the spec: \<open>count()\<close> of section 4.3, \<^verbatim>\<open>Count\<close> in the test program, over
  the whole buffer. \<^verbatim>\<open>BinaryDataEngine.hpp\<close> is missing.
\<close>

definition Count :: "BinaryDataEngine \<Rightarrow> nat" where
  "Count e = Count_range e 0 (Length e)"



section \<open>The structured engine\<close>









section \<open>Properties of the hexadecimal formatting\<close>

lemma hex_digits_length_pos: "0 < length (hex_digits u n)"
  by (induction u n rule: hex_digits.induct) (subst hex_digits.simps, simp)

























section \<open>Properties of GetRandomValue, ErrorState, Data, is_pod_type and GetCallback\<close>

lemma uint_succ_le_pred_iff:
  fixes x :: "'a::len word"
  shows "uint (x + 1) \<le> uint (x - 1) \<longleftrightarrow> x = 0 \<or> x = - 1"
proof (cases "x = 0 \<or> x = - 1")
  case True
  have "(- 1 :: 'a word) \<noteq> 0" by simp
  then have "uint (- 1 :: 'a word) \<noteq> 0" by (simp only: uint_0_iff not_False_eq_True)
  moreover have "0 \<le> uint (- 1 :: 'a word)" by simp
  ultimately have "1 \<le> uint (- 1 :: 'a word)" by linarith
  with True show ?thesis by auto
next
  case False
  then have x0: "x \<noteq> 0" and x1: "x \<noteq> - 1" by simp_all
  from x1 have "1 + x \<noteq> 0"
    by (simp add: add_eq_0_iff)
  then have a: "unat (x + 1) = Suc (unat x)"
    using unatSuc [of x] by (simp add: add.commute)
  from x0 have b: "unat (x - 1) = unat x - 1" by (rule unat_minus_one)
  from x0 have "unat x \<noteq> 0" by (simp add: unat_eq_0)
  with a b have "\<not> unat (x + 1) \<le> unat (x - 1)" by simp
  then have "\<not> x + 1 \<le> x - 1" by (simp add: word_le_nat_alt)
  with False show ?thesis by (simp add: word_le_def)
qed

lemma sint_succ:
  fixes x :: "'a::len word"
  assumes "1 < LENGTH('a)" and "sint x + 1 < 2 ^ (LENGTH('a) - 1)"
  shows "sint (x + 1) = sint x + 1"
proof -
  from assms(1) have "sint (1 :: 'a word) = 1" by simp
  then have "sint (x + 1) = signed_take_bit (LENGTH('a) - 1) (sint x + 1)"
    by (simp add: sint_word_add [of x 1])
  moreover have "- (2 ^ (LENGTH('a) - 1)) \<le> sint x + 1"
    using sint_ge [of x] by simp
  ultimately show ?thesis
    using assms(2) by (simp add: signed_take_bit_int_eq_self)
qed

lemma sint_pred:
  fixes x :: "'a::len word"
  assumes "1 < LENGTH('a)" and "- (2 ^ (LENGTH('a) - 1)) \<le> sint x - 1"
  shows "sint (x - 1) = sint x - 1"
proof -
  from assms(1) have "sint (1 :: 'a word) = 1" by simp
  then have "sint (x - 1) = signed_take_bit (LENGTH('a) - 1) (sint x - 1)"
    by (simp add: sint_word_diff [of x 1])
  moreover have "sint x - 1 < 2 ^ (LENGTH('a) - 1)"
    using sint_lt [of x] by simp
  ultimately show ?thesis
    using assms(2) by (simp add: signed_take_bit_int_eq_self)
qed

lemma sint_succ_le_pred_iff:
  fixes x :: "'a::len word"
  shows "sint (x + 1) \<le> sint (x - 1) \<longleftrightarrow>
           sint x = 2 ^ (LENGTH('a) - 1) - 1 \<or> sint x = - (2 ^ (LENGTH('a) - 1))"
proof (cases "1 < LENGTH('a)")
  case False
  then have n: "LENGTH('a) = 1" by (simp add: not_less le_Suc_eq)
  have "sint (1 :: 'a word) = sint (- 1 :: 'a word)" by (simp add: n)
  then have "(1 :: 'a word) = - 1" by (rule signed_word_eqI)
  then have "x + 1 = x - 1" by simp
  then have "sint (x + 1) \<le> sint (x - 1)" by (simp only: order_refl)
  moreover have "sint x = 0 \<or> sint x = - 1"
    using sint_ge [of x] sint_lt [of x] by (simp add: n) arith
  ultimately show ?thesis by (simp add: n)
next
  case True
  let ?M = "(2 :: int) ^ (LENGTH('a) - 1)"
  from True have M2: "2 \<le> ?M"
    using self_le_power [of "2 :: int" "LENGTH('a) - 1"] by simp
  have ne_s: "sint (x + 1) \<noteq> sint x"
  proof
    assume "sint (x + 1) = sint x"
    then have "x + 1 = x" by (rule signed_word_eqI)
    then show False by simp
  qed
  have ne_p: "sint (x - 1) \<noteq> sint x"
  proof
    assume "sint (x - 1) = sint x"
    then have "x - 1 = x" by (rule signed_word_eqI)
    then show False by simp
  qed
  consider (max) "sint x = ?M - 1" | (min) "sint x = - ?M" | (mid) "sint x \<noteq> ?M - 1" "sint x \<noteq> - ?M"
    by blast
  then show ?thesis
  proof cases
    case max
    with M2 have "- ?M \<le> sint x - 1" by simp
    with True have "sint (x - 1) = sint x - 1" by (rule sint_pred)
    moreover have "sint (x + 1) < ?M" by (rule sint_lt)
    ultimately show ?thesis using max ne_s by simp
  next
    case min
    with M2 have "sint x + 1 < ?M" by simp
    with True have "sint (x + 1) = sint x + 1" by (rule sint_succ)
    moreover have "- ?M \<le> sint (x - 1)" by (rule sint_ge)
    ultimately show ?thesis using min ne_p by simp
  next
    case mid
    with sint_lt [of x] sint_ge [of x] have "sint x + 1 < ?M" and "- ?M \<le> sint x - 1"
      by simp_all
    with True have "sint (x + 1) = sint x + 1" and "sint (x - 1) = sint x - 1"
      by (simp_all add: sint_succ sint_pred)
    with mid show ?thesis by simp
  qed
qed

lemma not_promoted_length: "\<not> promoted (x :: 'a::len word) \<Longrightarrow> 1 < LENGTH('a)"
  by (simp add: promoted_def)

text \<open>
  Claim C4, as amended. \<open>GetRandomValue\<close> passes \<open>(begin + 1, end - 1)\<close>, computed in the
  arithmetic of the type, to the distribution, and every value returned lies in the
  closed interval between these two bounds. The call has a defined result exactly
  when \<open>begin + 1 \<le> end - 1\<close> there, and for a signed type at least as wide as \<^verbatim>\<open>int\<close>
  only when both bounds are representable. With \<open>begin = end\<close> there is no defined
  result for a signed type at least as wide as \<^verbatim>\<open>int\<close>; for an unsigned type and for a
  signed type narrower than \<^verbatim>\<open>int\<close> there is one exactly when the common bound is the
  minimum or the maximum of the type, where one of the two bounds wraps around.
\<close>

theorem GetRandomValue_range:
  "(GetRandomValue_returns sg (begin :: 'a::len word) end v \<longrightarrow>
            GetRandomValue_defined sg begin end
            \<and> (sg \<longrightarrow> sint (begin + 1) \<le> sint v \<and> sint v \<le> sint (end - 1))
            \<and> (\<not> sg \<longrightarrow> begin + 1 \<le> v \<and> v \<le> end - 1))
    \<and> (GetRandomValue_defined False begin end \<longleftrightarrow> begin + 1 \<le> end - 1)
    \<and> (promoted begin \<longrightarrow>
          (GetRandomValue_defined True begin end \<longleftrightarrow> sint (begin + 1) \<le> sint (end - 1)))
    \<and> (\<not> promoted begin \<longrightarrow>
          (GetRandomValue_defined True begin end \<longleftrightarrow>
             sint begin + 1 \<le> numeric_max True begin \<and> numeric_min True end \<le> sint end - 1
             \<and> sint begin + 1 \<le> sint end - 1))
    \<and> (begin = end \<longrightarrow>
          (GetRandomValue_defined False begin end \<longleftrightarrow> begin = 0 \<or> begin = - 1))
    \<and> (begin = end \<and> promoted begin \<longrightarrow>
          (GetRandomValue_defined True begin end \<longleftrightarrow>
             sint begin = numeric_max True begin \<or> sint begin = numeric_min True begin))
    \<and> (begin = end \<and> \<not> promoted begin \<longrightarrow> \<not> GetRandomValue_defined True begin end)"
proof -
  have wide: "sint (begin + 1) = sint begin + 1 \<and> sint (end - 1) = sint end - 1"
    if "\<not> promoted begin" "sint begin + 1 \<le> numeric_max True begin"
      "numeric_min True end \<le> sint end - 1"
    using that not_promoted_length [of "begin"]
    by (simp add: numeric_max_def numeric_min_def sint_succ sint_pred)
  have r: "GetRandomValue_returns sg begin end v \<longrightarrow>
            GetRandomValue_defined sg begin end
            \<and> (sg \<longrightarrow> sint (begin + 1) \<le> sint v \<and> sint v \<le> sint (end - 1))
            \<and> (\<not> sg \<longrightarrow> begin + 1 \<le> v \<and> v \<le> end - 1)"
    using wide
    by (auto simp: GetRandomValue_returns_def GetRandomValue_defined_def param_t_def
        value_of_def word_le_def split: if_splits)
  have u: "GetRandomValue_defined False begin end \<longleftrightarrow> begin + 1 \<le> end - 1"
    by (simp add: GetRandomValue_defined_def param_t_def word_le_def)
  have sp: "promoted begin \<longrightarrow>
          (GetRandomValue_defined True begin end \<longleftrightarrow> sint (begin + 1) \<le> sint (end - 1))"
    by (simp add: GetRandomValue_defined_def param_t_def)
  have sw: "\<not> promoted begin \<longrightarrow>
          (GetRandomValue_defined True begin end \<longleftrightarrow>
             sint begin + 1 \<le> numeric_max True begin \<and> numeric_min True end \<le> sint end - 1
             \<and> sint begin + 1 \<le> sint end - 1)"
    by (auto simp: GetRandomValue_defined_def param_t_def)
  have e1: "begin = end \<longrightarrow>
          (GetRandomValue_defined False begin end \<longleftrightarrow> begin = 0 \<or> begin = - 1)"
    using uint_succ_le_pred_iff [of "end"]
    by (auto simp: GetRandomValue_defined_def param_t_def)
  have e2: "begin = end \<and> promoted begin \<longrightarrow>
          (GetRandomValue_defined True begin end \<longleftrightarrow>
             sint begin = numeric_max True begin \<or> sint begin = numeric_min True begin)"
    using sint_succ_le_pred_iff [of "end"]
    by (auto simp: GetRandomValue_defined_def param_t_def numeric_max_def numeric_min_def)
  have e3: "begin = end \<and> \<not> promoted begin \<longrightarrow> \<not> GetRandomValue_defined True begin end"
    by (auto simp: GetRandomValue_defined_def param_t_def)
  from r u sp sw e1 e2 e3 show ?thesis by blast
qed

text \<open>
  Claim C4 as stated fails for equal bounds at the minimum of the default type:
  \<open>GetRandomValue<uint32_t>(0, 0)\<close> has the parameters \<open>(1, 4294967295)\<close>, which satisfy
  the requirement of the distribution, and 7 is one of its results.
\<close>

theorem GetRandomValue_equal_bounds_counterexample:
  "GetRandomValue_defined False (0 :: 32 word) 0
   \<and> GetRandomValue_returns False (0 :: 32 word) 0 7
   \<and> param_t False (0 :: 32 word) 0 = Some (1, 4294967295)"
  by (simp add: GetRandomValue_defined_def GetRandomValue_returns_def param_t_def value_of_def
      unsigned_minus_1_eq_mask mask_eq_exp_minus_1)

text \<open>
  Instances of each part: unsigned bounds 10 and 20, a signed range, equal bounds
  inside the range of the type, and equal bounds at the maximum of \<^verbatim>\<open>uint32_t\<close> and of
  \<^verbatim>\<open>short\<close>, where the parameters are \<open>(0, max - 1)\<close> and \<open>(-32768, 32766)\<close>.
\<close>

theorem GetRandomValue_range_witness:
  "GetRandomValue_returns False (10 :: 32 word) 20 15
   \<and> GetRandomValue_defined False (10 :: 32 word) 20
   \<and> (10 + 1 :: 32 word) \<le> 15 \<and> (15 :: 32 word) \<le> 20 - 1
   \<and> GetRandomValue_returns True (- 5 :: 32 word) 5 (- 4)
   \<and> sint (- 5 + 1 :: 32 word) \<le> sint (- 4 :: 32 word)
   \<and> sint (- 4 :: 32 word) \<le> sint (5 - 1 :: 32 word)
   \<and> \<not> promoted (5 :: 32 word)
   \<and> \<not> GetRandomValue_defined True (5 :: 32 word) 5
   \<and> \<not> GetRandomValue_defined False (5 :: 32 word) 5
   \<and> GetRandomValue_defined False (- 1 :: 32 word) (- 1)
   \<and> promoted (32767 :: 16 word)
   \<and> sint (32767 :: 16 word) = numeric_max True (32767 :: 16 word)
   \<and> GetRandomValue_defined True (32767 :: 16 word) 32767
   \<and> param_t True (32767 :: 16 word) 32767 = Some (- 32768, 32766)
   \<and> \<not> GetRandomValue_defined True (5 :: 16 word) 5"
proof -
  have a: "GetRandomValue_returns False (10 :: 32 word) 20 15"
    by (simp add: GetRandomValue_returns_def param_t_def value_of_def)
  have b: "GetRandomValue_returns True (- 5 :: 32 word) 5 (- 4)"
    by (simp add: GetRandomValue_returns_def param_t_def value_of_def numeric_max_def
        numeric_min_def promoted_def)
  have c: "(5 :: 32 word) \<noteq> 0 \<and> (5 :: 32 word) \<noteq> - 1" by simp
  have d: "\<not> promoted (5 :: 32 word)" by (simp add: promoted_def)
  have e: "promoted (32767 :: 16 word) \<and> promoted (5 :: 16 word)" by (simp add: promoted_def)
  have f: "sint (32767 :: 16 word) = numeric_max True (32767 :: 16 word)"
    by (simp add: numeric_max_def)
  have g: "sint (5 :: 16 word) \<noteq> numeric_max True (5 :: 16 word)
      \<and> sint (5 :: 16 word) \<noteq> numeric_min True (5 :: 16 word)"
    by (simp add: numeric_max_def numeric_min_def)
  have h: "param_t True (32767 :: 16 word) 32767 = Some (- 32768, 32766)"
    by (simp add: param_t_def promoted_def)
  show ?thesis
    using a b c d e f g h GetRandomValue_range [of False "10 :: 32 word" 20 15]
      GetRandomValue_range [of True "- 5 :: 32 word" 5 "- 4"]
      GetRandomValue_range [of True "5 :: 32 word" 5]
      GetRandomValue_range [of False "5 :: 32 word" 5]
      GetRandomValue_range [of False "- 1 :: 32 word" "- 1"]
      GetRandomValue_range [of True "32767 :: 16 word" 32767]
      GetRandomValue_range [of True "5 :: 16 word" 5]
    by simp
qed

text \<open>
  Claim C8. \<open>ErrorState\<close> is the maximum value of the size type: every bit set, that is
  \<open>2 ^ 64 - 1\<close>, and no value of the type is greater.
\<close>

theorem ErrorState_is_max:
  "ErrorState = - 1 \<and> unat ErrorState = 2 ^ 64 - 1 \<and> (\<forall>n :: size_t. n \<le> ErrorState)"
  by (simp add: ErrorState_def numeric_limits_max_def unsigned_minus_1_eq_mask mask_eq_exp_minus_1)

text \<open>
  Claim C6. \<open>GetAt\<close> returns the null pointer exactly for an index at or beyond the
  stored length, and otherwise the address of the element at that index (which, in a
  container whose array has the stored length, holds that element). None of the read
  accessors \<open>GetAt\<close>, \<open>Size\<close> and \<open>Get\<close> changes the contents or the length.
\<close>

theorem GetAt_bounds_checked:
  "(fst (GetAt d i) = nullptr \<longleftrightarrow> length_Data d \<le> i)
   \<and> (i < length_Data d \<longrightarrow> fst (GetAt d i) = element i)
   \<and> (i < length_Data d \<and> unat (length_Data d) \<le> length (data d) \<longrightarrow>
        deref d (fst (GetAt d i)) = Some (data d ! unat i))
   \<and> snd (GetAt d i) = d \<and> snd (Size d) = d \<and> snd (Get d) = d"
proof -
  have "i < length_Data d \<and> unat (length_Data d) \<le> length (data d) \<longrightarrow>
        deref d (fst (GetAt d i)) = Some (data d ! unat i)"
    by (auto simp: GetAt_def deref_def word_less_nat_alt)
  moreover have "(fst (GetAt d i) = nullptr \<longleftrightarrow> length_Data d \<le> i)
      \<and> (i < length_Data d \<longrightarrow> fst (GetAt d i) = element i)"
    by (auto simp: GetAt_def)
  moreover have "snd (GetAt d i) = d \<and> snd (Size d) = d \<and> snd (Get d) = d"
    by (simp add: GetAt_def Size_def Get_def)
  ultimately show ?thesis by blast
qed

text \<open>A container of three characters, read at its last index and one beyond.\<close>

theorem GetAt_bounds_checked_witness:
  "(2 :: size_t) < length_Data \<lparr>data = ''abc'', length_Data = 3\<rparr>
   \<and> unat (length_Data \<lparr>data = ''abc'', length_Data = 3\<rparr>) \<le> length (data \<lparr>data = ''abc'', length_Data = 3\<rparr>)
   \<and> fst (GetAt \<lparr>data = ''abc'', length_Data = 3\<rparr> 2) = element 2
   \<and> deref \<lparr>data = ''abc'', length_Data = 3\<rparr> (fst (GetAt \<lparr>data = ''abc'', length_Data = 3\<rparr> 2)) = Some (CHR ''c'')
   \<and> fst (GetAt \<lparr>data = ''abc'', length_Data = 3\<rparr> 3) = nullptr"
  using GetAt_bounds_checked [of "\<lparr>data = ''abc'', length_Data = 3\<rparr>" 2]
    GetAt_bounds_checked [of "\<lparr>data = ''abc'', length_Data = 3\<rparr>" 3]
  by (simp add: deref_def)

text \<open>
  Claim C7 as stated fails: \<open>mixed_access\<close> is trivially copyable and the check rejects it.
\<close>

theorem is_pod_type_counterexample:
  "is_trivially_copyable mixed_access \<and> \<not> is_pod_type mixed_access"
  by (simp add: mixed_access_def is_pod_type_def)

text \<open>
  Claim C7, as amended. \<open>is_pod_type\<close> holds exactly for the types that are trivial
  (trivially copyable with a trivial default constructor) and standard-layout; every
  type it accepts is trivially copyable.
\<close>

theorem is_pod_type_trivial_standard_layout:
  "(is_pod_type T \<longleftrightarrow>
      is_trivially_copyable T \<and> has_trivial_default_constructor T \<and> is_standard_layout T)
   \<and> (is_pod_type T \<longrightarrow> is_trivially_copyable T)"
  by (auto simp: is_pod_type_def is_trivial_def)

text \<open>A plain aggregate of two integers is accepted.\<close>

theorem is_pod_type_trivial_standard_layout_witness:
  "is_pod_type plain \<and> is_trivially_copyable plain"
  using is_pod_type_trivial_standard_layout [of plain]
  by (simp add: plain_def)

text \<open>
  Claim C9. Whenever the module is not below \<open>FRAMEWORK_MODULE_TYPES_SIZE\<close>, or no
  callback table is installed for the module, or the callback is not below the size of
  the module's table, \<open>GetCallback\<close> returns the null pointer and leaves the registry as
  it was.
\<close>

theorem GetCallback_failing_lookup:
  assumes "SIZE \<le> unat module \<or> callbacks gi ! unat module = None
           \<or> GetModuleCallbacksSize module \<le> callback"
  shows "fst (GetCallback SIZE GetModuleCallbacksSize dynamic_cast gi module callback) = None
         \<and> fst (snd (GetCallback SIZE GetModuleCallbacksSize dynamic_cast gi module callback)) = gi"
  using assms by (auto simp: GetCallback_def split: option.splits)

text \<open>
  A registry of two modules, the second with one functor: the three failing lookups
  and a successful one.
\<close>

theorem GetCallback_failing_lookup_witness:
  "fst (GetCallback 2 (\<lambda>m. 2) Some \<lparr>callbacks = [None, Some [Some (42 :: nat), None]]\<rparr> 5 0) = None
   \<and> fst (snd (GetCallback 2 (\<lambda>m. 2) Some \<lparr>callbacks = [None, Some [Some (42 :: nat), None]]\<rparr> 5 0))
       = \<lparr>callbacks = [None, Some [Some 42, None]]\<rparr>
   \<and> fst (GetCallback 2 (\<lambda>m. 2) Some \<lparr>callbacks = [None, Some [Some (42 :: nat), None]]\<rparr> 0 0) = None
   \<and> fst (GetCallback 2 (\<lambda>m. 2) Some \<lparr>callbacks = [None, Some [Some (42 :: nat), None]]\<rparr> 1 7) = None
   \<and> fst (GetCallback 2 (\<lambda>m. 2) Some \<lparr>callbacks = [None, Some [Some (42 :: nat), None]]\<rparr> 1 0) = Some 42"
proof -
  let ?gi = "\<lparr>callbacks = [None, Some [Some (42 :: nat), None]]\<rparr>"
  have a: "(2 :: nat) \<le> unat (5 :: uint16_t)" by simp
  have b: "callbacks ?gi ! unat (0 :: uint16_t) = None" by simp
  have c: "(\<lambda>m :: uint16_t. 2 :: uint16_t) 1 \<le> 7" by simp
  have ok: "fst (GetCallback 2 (\<lambda>m. 2) Some ?gi 1 0) = Some 42"
    by (simp add: GetCallback_def)
  from a have "(2 :: nat) \<le> unat (5 :: uint16_t) \<or> callbacks ?gi ! unat (5 :: uint16_t) = None
      \<or> (\<lambda>m :: uint16_t. 2 :: uint16_t) 5 \<le> 0" by blast
  note r1 = GetCallback_failing_lookup [OF this, of Some]
  from b have "(2 :: nat) \<le> unat (0 :: uint16_t) \<or> callbacks ?gi ! unat (0 :: uint16_t) = None
      \<or> (\<lambda>m :: uint16_t. 2 :: uint16_t) 0 \<le> 0" by blast
  note r2 = GetCallback_failing_lookup [OF this, of Some]
  from c have "(2 :: nat) \<le> unat (1 :: uint16_t) \<or> callbacks ?gi ! unat (1 :: uint16_t) = None
      \<or> (\<lambda>m :: uint16_t. 2 :: uint16_t) 1 \<le> 7" by blast
  note r3 = GetCallback_failing_lookup [OF this, of Some]
  from r1 r2 r3 ok show ?thesis by simp
qed

section \<open>Properties of the binary data engine and the structured engine\<close>

lemma filter_bits_split:
  "length (filter (\<lambda>b. f (b div 8) (b mod 8)) [0..<8 * n])
     = (\<Sum>j<n. length (filter (f j) [0..<8]))"
proof (induction n)
  case 0
  show ?case by simp
next
  case (Suc n)
  have "[0..<8 * n + 8] = [0..<8 * n] @ [8 * n..<8 * n + 8]"
    by (rule upt_add_eq_append) simp
  moreover have "[8 * n..<8 * n + 8] = map (\<lambda>t. t + 8 * n) [0..<8]"
    by (simp only: map_add_upt add.commute)
  ultimately have "[0..<8 * Suc n] = [0..<8 * n] @ map (\<lambda>t. t + 8 * n) [0..<8]"
    by (simp add: add.commute)
  moreover have "filter (\<lambda>b. f (b div 8) (b mod 8)) (map (\<lambda>t. t + 8 * n) [0..<8])
      = map (\<lambda>t. t + 8 * n) (filter (f n) [0..<8])"
    by (simp only: filter_map comp_def) (rule arg_cong [where f = "map _"], rule filter_cong, simp_all)
  ultimately show ?case using Suc by simp
qed


lemma Count_by_bytes:
  "Count e =
     (\<Sum>j<length (buffer e).
        length (filter (\<lambda>t. case dataModeType e of
                               DATA_MODE_DEPENDENT \<Rightarrow> bit (buffer e ! endian_order e j) (7 - t)
                             | DATA_MODE_INDEPENDENT \<Rightarrow> bit (buffer e ! j) t) [0..<8]))"
proof -
  have "filter (Test e) [0..<8 * length (buffer e)]
      = filter (\<lambda>b. case dataModeType e of
                       DATA_MODE_DEPENDENT \<Rightarrow> bit (buffer e ! endian_order e (b div 8)) (7 - b mod 8)
                     | DATA_MODE_INDEPENDENT \<Rightarrow> bit (buffer e ! (b div 8)) (b mod 8))
          [0..<8 * length (buffer e)]"
    by (rule filter_cong) (simp_all add: Test_def Length_def)
  then show ?thesis
    unfolding Count_def Count_range_def Length_def
    by (simp only: filter_bits_split
        [of "\<lambda>j t. case dataModeType e of
                     DATA_MODE_DEPENDENT \<Rightarrow> bit (buffer e ! endian_order e j) (7 - t)
                   | DATA_MODE_INDEPENDENT \<Rightarrow> bit (buffer e ! j) t"])
qed

text \<open>
  Claim C3. For every engine, relabelling the same bytes as big-endian or as
  little-endian gives the same population count; the relabelling leaves the bytes as
  they are.
\<close>

theorem Count_endianness_invariant:
  "Count (SetDataEndianType e DATA_BIG_ENDIAN) = Count (SetDataEndianType e DATA_LITTLE_ENDIAN)
   \<and> buffer (SetDataEndianType e DATA_BIG_ENDIAN) = buffer e
   \<and> buffer (SetDataEndianType e DATA_LITTLE_ENDIAN) = buffer e"
proof (cases "dataModeType e")
  case DATA_MODE_DEPENDENT
  let ?g = "\<lambda>j. length (filter (\<lambda>t. bit (buffer e ! j) (7 - t)) [0..<8])"
  have "(\<Sum>j<length (buffer e). ?g (length (buffer e) - Suc j)) = (\<Sum>j<length (buffer e). ?g j)"
    by (rule sum.nat_diff_reindex)
  with DATA_MODE_DEPENDENT show ?thesis
    by (simp add: Count_by_bytes SetDataEndianType_def endian_order_def)
next
  case DATA_MODE_INDEPENDENT
  then show ?thesis
    by (simp add: Count_by_bytes SetDataEndianType_def)
qed








end
